theory Spec2Isabelle
  imports Complex_Main "HOL-Library.Log_Nat"
begin

section \<open>JavaScript values\<close>

text \<open>
  The client is a React single-page application (\<^verbatim>\<open>frontend/src/App.js\<close>). The values it
  receives from the backend are parsed JSON; the values it reads without computing on
  them (the token, the vendor profile, the body of an error response) are modelled
  untyped, as JavaScript has them. A JSON number is carried as its decimal text
  (\<open>JNum\<close>), which is what every conversion to a string yields; the client does no
  arithmetic on untyped values.
\<close>

datatype js_value =
    JUndefined
  | JNull
  | JBool bool
  | JNum string
  | JStr string
  | JArr "js_value list"
  | JObj "(string \<times> js_value) list"

text \<open>
  The errors the client can see. \<open>Error m\<close> is \<^verbatim>\<open>new Error(m)\<close>; the other three are
  raised by the host: \<open>TypeError\<close> by a property read on \<^verbatim>\<open>null\<close>/\<^verbatim>\<open>undefined\<close> and by a
  \<^verbatim>\<open>fetch\<close> that cannot reach the server, \<open>SyntaxError\<close> by \<^verbatim>\<open>response.json()\<close> on a body
  that is not JSON, \<open>ReferenceError\<close> by an identifier that no scope binds.
\<close>

datatype js_error =
    Error string
  | TypeError string
  | SyntaxError string
  | ReferenceError string

fun message :: "js_error \<Rightarrow> string" where
  "message (Error m) = m"
| "message (TypeError m) = m"
| "message (SyntaxError m) = m"
| "message (ReferenceError m) = m"

text \<open>Truthiness (\<^verbatim>\<open>ToBoolean\<close>): what \<^verbatim>\<open>!v\<close>, \<^verbatim>\<open>v && e\<close> and \<^verbatim>\<open>v || e\<close> test.\<close>

fun truthy :: "js_value \<Rightarrow> bool" where
  "truthy JUndefined = False"
| "truthy JNull = False"
| "truthy (JBool b) = b"
| "truthy (JNum n) = (n \<noteq> ''0'')"
| "truthy (JStr s) = (s \<noteq> '''')"
| "truthy (JArr xs) = True"
| "truthy (JObj kvs) = True"

definition js_or :: "js_value \<Rightarrow> js_value \<Rightarrow> js_value" where
  "js_or a b = (if truthy a then a else b)"

fun join_with :: "string \<Rightarrow> string list \<Rightarrow> string" where
  "join_with sep [] = ''''"
| "join_with sep [x] = x"
| "join_with sep (x # y # ys) = x @ sep @ join_with sep (y # ys)"

text \<open>
  The conversion to a string that a template literal, \<^verbatim>\<open>new Error(v)\<close> and
  \<^verbatim>\<open>localStorage.setItem\<close> apply. It completes for every value but a parsed object with an
  own key \<^verbatim>\<open>toString\<close> (the value under that key is not a function, and so the object has
  no primitive form), and an array with such an element: there it throws a \<open>TypeError\<close>.
  \<open>convertible\<close> says that the conversion completes, \<open>to_string\<close> is the string it gives
  then: an array is its elements joined by commas (\<^verbatim>\<open>null\<close> and \<^verbatim>\<open>undefined\<close> elements as
  the empty string), a plain object is \<^verbatim>\<open>[object Object]\<close>. \<open>ToString\<close> is the conversion
  with its failure.
\<close>

fun convertible :: "js_value \<Rightarrow> bool" where
  "convertible (JObj kvs) = (map_of kvs ''toString'' = None)"
| "convertible (JArr xs) = list_all convertible xs"
| "convertible v = True"

fun to_string :: "js_value \<Rightarrow> string" where
  "to_string JUndefined = ''undefined''"
| "to_string JNull = ''null''"
| "to_string (JBool b) = (if b then ''true'' else ''false'')"
| "to_string (JNum n) = n"
| "to_string (JStr s) = s"
| "to_string (JArr xs) =
     join_with '','' (map (\<lambda>x. if x = JUndefined \<or> x = JNull then '''' else to_string x) xs)"
| "to_string (JObj kvs) = ''[object Object]''"

definition ToString :: "js_value \<Rightarrow> js_error + string" where
  "ToString v =
     (if convertible v then Inr (to_string v)
      else Inl (TypeError ''Cannot convert object to primitive value''))"

text \<open>
  A property read \<^verbatim>\<open>v.k\<close>, for the keys the client reads (\<^verbatim>\<open>detail\<close>, \<^verbatim>\<open>access_token\<close>,
  \<^verbatim>\<open>vendor\<close>, \<^verbatim>\<open>name\<close>): an object gives the property or \<^verbatim>\<open>undefined\<close>, a primitive or an
  array has no such property, and \<^verbatim>\<open>null\<close> and \<^verbatim>\<open>undefined\<close> raise a \<open>TypeError\<close>.
\<close>

fun own_prop :: "js_value \<Rightarrow> string \<Rightarrow> js_value" where
  "own_prop (JObj kvs) k = (case map_of kvs k of Some v \<Rightarrow> v | None \<Rightarrow> JUndefined)"
| "own_prop v k = JUndefined"

definition nullish :: "js_value \<Rightarrow> bool" where
  "nullish v = (v = JUndefined \<or> v = JNull)"

definition get_prop :: "js_value \<Rightarrow> string \<Rightarrow> js_error + js_value" where
  "get_prop v k =
     (if nullish v
      then Inl (TypeError (''Cannot read properties of '' @ to_string v @
             '' (reading '' @ [CHR 0x27] @ k @ [CHR 0x27] @ '')''))
      else Inr (own_prop v k))"

text \<open>Optional chaining \<^verbatim>\<open>v?.k\<close>.\<close>

definition optional_prop :: "js_value \<Rightarrow> string \<Rightarrow> js_value" where
  "optional_prop v k = (if nullish v then JUndefined else own_prop v k)"

text \<open>
  An object literal with spreads: a property assigned again keeps its place and takes
  the later value, a new property goes to the end.
\<close>

fun assign :: "string \<Rightarrow> 'v \<Rightarrow> (string \<times> 'v) list \<Rightarrow> (string \<times> 'v) list" where
  "assign k v [] = [(k, v)]"
| "assign k v ((k', v') # kvs) = (if k' = k then (k, v) # kvs else (k', v') # assign k v kvs)"

definition spread :: "(string \<times> 'v) list \<Rightarrow> (string \<times> 'v) list \<Rightarrow> (string \<times> 'v) list" where
  "spread obj src = foldl (\<lambda>acc (k, v). assign k v acc) obj src"

section \<open>The API client wrapper\<close>

type_synonym upload = string

text \<open>
  A number that the client only shows or passes on is carried as its decimal text, as
  in \<open>JNum\<close>.
\<close>

type_synonym number_text = string

text \<open>
  A value of a product form field: the number taken from the product being edited, or
  the string the input element holds. \<^verbatim>\<open>FormData.append\<close> stores the string form of
  either, and a file as it is.
\<close>

datatype field = Num number_text | Str string

fun field_text :: "field \<Rightarrow> string" where
  "field_text (Num n) = n"
| "field_text (Str s) = s"

datatype form_entry = Value string | FileEntry upload

text \<open>
  A request body: a string (the caller's \<^verbatim>\<open>JSON.stringify\<close> output), a \<^verbatim>\<open>FormData\<close> (its
  entries in order), or any other value handed to \<^verbatim>\<open>fetch\<close> as it is.
\<close>

datatype body =
    Text string
  | FormData "(string \<times> form_entry) list"
  | Plain js_value

record options =
  opt_method :: "string option"
  opt_body :: "body option"
  opt_headers :: "(string \<times> string) list option"

definition no_options :: options where
  "no_options = \<lparr>opt_method = None, opt_body = None, opt_headers = None\<rparr>"

record request =
  req_url :: string
  req_method :: "string option"
  req_body :: "body option"
  req_headers :: "(string \<times> string) list"

text \<open>
  A response: its status and what \<^verbatim>\<open>response.json()\<close> settles to (the parsed body, or the
  error of a body that is not JSON).
\<close>

record response =
  status :: nat
  json :: "js_error + js_value"

definition ok :: "response \<Rightarrow> bool" where
  "ok r = (200 \<le> status r \<and> status r \<le> 299)"

text \<open>
  The host: the build-time backend URL, the network behind \<^verbatim>\<open>fetch\<close> (\<open>Inl\<close> when the
  promise rejects), \<^verbatim>\<open>JSON.stringify\<close> and \<^verbatim>\<open>window.confirm\<close>.
\<close>

record env =
  REACT_APP_BACKEND_URL :: "string option"
  fetch :: "request \<Rightarrow> js_error + response"
  JSON_stringify :: "js_value \<Rightarrow> string"
  confirm :: "string \<Rightarrow> bool"

definition API_BASE_URL :: "env \<Rightarrow> string" where
  "API_BASE_URL e =
     (case REACT_APP_BACKEND_URL e of
        Some u \<Rightarrow> if u = '''' then ''http://localhost:8001'' else u
      | None \<Rightarrow> ''http://localhost:8001'')"

text \<open>
  The headers object of \<^verbatim>\<open>apiCall\<close>. Its template literal \<^verbatim>\<open>Bearer ${token}\<close> is taken at a
  token that has a string form (\<open>convertible\<close>), as every string is.
\<close>

definition request_headers :: "js_value \<Rightarrow> options \<Rightarrow> (string \<times> string) list" where
  "request_headers tok opts =
     spread
       (spread [(''Content-Type'', ''application/json'')]
          (if truthy tok then [(''Authorization'', ''Bearer '' @ to_string tok)] else []))
       (case opt_headers opts of None \<Rightarrow> [] | Some h \<Rightarrow> h)"

definition build_request :: "env \<Rightarrow> js_value \<Rightarrow> string \<Rightarrow> options \<Rightarrow> request" where
  "build_request e tok url opts =
     \<lparr>req_url = API_BASE_URL e @ url,
      req_method = opt_method opts,
      req_body = opt_body opts,
      req_headers = request_headers tok opts\<rparr>"

definition read_response :: "response \<Rightarrow> js_error + js_value" where
  "read_response r =
     (if \<not> ok r then
        (case json r of
           Inl err \<Rightarrow> Inl err
         | Inr errorData \<Rightarrow>
             (case get_prop errorData ''detail'' of
                Inl err \<Rightarrow> Inl err
              | Inr detail \<Rightarrow>
                  (case ToString (js_or detail (JStr ''An error occurred'')) of
                     Inl err \<Rightarrow> Inl err
                   | Inr msg \<Rightarrow> Inl (Error msg))))
      else json r)"

definition apiCall :: "env \<Rightarrow> js_value \<Rightarrow> string \<Rightarrow> options \<Rightarrow> js_error + js_value" where
  "apiCall e tok url opts =
     (case fetch e (build_request e tok url opts) of
        Inl err \<Rightarrow> Inl err
      | Inr r \<Rightarrow> read_response r)"

section \<open>Application state\<close>

text \<open>
  The products and orders of the data model, as the views read them. The price and the
  quantity of a product are only shown and passed on, so they are carried as text; the
  \<^verbatim>\<open>total_price\<close> of an order is added up, so it is the number as the response writes
  it, which the client reads rounded to a floating-point number (see \<open>total_price\<close>).
\<close>

record product =
  p_id :: string
  p_name :: string
  p_description :: string
  p_price :: number_text
  p_quantity :: number_text
  p_category :: string
  p_images :: "string list"

record order =
  o_id :: string
  o_product_name :: string
  o_product_image :: string
  o_customer_name :: string
  o_customer_email :: string
  o_quantity :: int
  o_total_price :: real
  o_status :: string
  o_created_at :: string

text \<open>
  The state of the \<^verbatim>\<open>App\<close> component (its eight \<^verbatim>\<open>useState\<close> cells) together with the
  browser's \<^verbatim>\<open>localStorage\<close>.
\<close>

record app_state =
  currentView :: string
  user :: js_value
  token :: js_value
  products :: "product list"
  orders :: "order list"
  loading :: bool
  error :: string
  success :: string
  localStorage :: "string \<rightharpoonup> string"

definition getItem :: "(string \<rightharpoonup> string) \<Rightarrow> string \<Rightarrow> js_value" where
  "getItem store k = (case store k of Some v \<Rightarrow> JStr v | None \<Rightarrow> JNull)"

definition initial_state :: "(string \<rightharpoonup> string) \<Rightarrow> app_state" where
  "initial_state store =
     \<lparr>currentView = ''login'', user = JNull, token = getItem store ''token'',
      products = [], orders = [], loading = False, error = '''', success = '''',
      localStorage = store\<rparr>"

text \<open>
  The session states of the specification, as the root render tells them apart:
  \<^verbatim>\<open>if (!token) return <AuthScreen .../>\<close>.
\<close>

definition anonymous :: "app_state \<Rightarrow> bool" where
  "anonymous s = (\<not> truthy (token s))"

definition authenticated_as :: "app_state \<Rightarrow> js_value \<Rightarrow> bool" where
  "authenticated_as s profile = (truthy (token s) \<and> user s = profile)"

text \<open>
  A call that is started and not awaited (\<^verbatim>\<open>fetchProducts()\<close>, \<^verbatim>\<open>fetchOrders()\<close>, and
  \<^verbatim>\<open>fetchUserProfile()\<close> from the effect hook) is returned as a spawned task.
\<close>

datatype task = Spawn_fetchUserProfile | Spawn_fetchProducts | Spawn_fetchOrders

section \<open>Session handlers\<close>

definition fetchUserProfile :: "env \<Rightarrow> app_state \<Rightarrow> app_state" where
  "fetchUserProfile e s =
     (case apiCall e (token s) ''/api/vendor/profile'' no_options of
        Inr profile \<Rightarrow> s\<lparr>user := profile, currentView := ''dashboard''\<rparr>
      | Inl err \<Rightarrow> s\<lparr>localStorage := (localStorage s)(''token'' := None), token := JNull\<rparr>)"

definition handleAuth_endpoint :: "bool \<Rightarrow> string" where
  "handleAuth_endpoint isLogin = (if isLogin then ''/api/auth/login'' else ''/api/auth/register'')"

definition handleAuth_options :: "env \<Rightarrow> js_value \<Rightarrow> options" where
  "handleAuth_options e formData =
     \<lparr>opt_method = Some ''POST'', opt_body = Some (Text (JSON_stringify e formData)),
      opt_headers = None\<rparr>"

text \<open>
  \<^verbatim>\<open>handleAuth\<close>: the \<^verbatim>\<open>try\<close> block stops at the first error, the \<^verbatim>\<open>catch\<close> shows its message and
  \<^verbatim>\<open>finally\<close> clears the loading flag. \<^verbatim>\<open>localStorage.setItem\<close> converts the token to a
  string; where that fails, \<^verbatim>\<open>setToken\<close> has been called already.
\<close>

definition handleAuth :: "env \<Rightarrow> js_value \<Rightarrow> bool \<Rightarrow> app_state \<Rightarrow> app_state" where
  "handleAuth e formData isLogin s =
     (let s1 = s\<lparr>loading := True, error := ''''\<rparr>;
          s2 =
            (case apiCall e (token s) (handleAuth_endpoint isLogin) (handleAuth_options e formData) of
               Inl err \<Rightarrow> s1\<lparr>error := message err\<rparr>
             | Inr r \<Rightarrow>
                 (case get_prop r ''access_token'' of
                    Inl err \<Rightarrow> s1\<lparr>error := message err\<rparr>
                  | Inr access_token \<Rightarrow>
                      (case ToString access_token of
                         Inl err \<Rightarrow> s1\<lparr>token := access_token, error := message err\<rparr>
                       | Inr stored \<Rightarrow>
                           s1\<lparr>token := access_token,
                              localStorage := (localStorage s1)(''token'' \<mapsto> stored),
                              user := own_prop r ''vendor'',
                              currentView := ''dashboard'',
                              success := (if isLogin then ''Login successful!''
                                          else ''Registration successful!'')\<rparr>)))
      in s2\<lparr>loading := False\<rparr>)"

definition handleLogout :: "app_state \<Rightarrow> app_state" where
  "handleLogout s =
     s\<lparr>localStorage := (localStorage s)(''token'' := None),
       token := JNull,
       user := JNull,
       currentView := ''login'',
       products := [],
       orders := []\<rparr>"

text \<open>
  The two effect hooks of \<^verbatim>\<open>App\<close>. React runs a hook after the first render and after a
  render in which one of its dependencies changed.
\<close>

definition effect_token :: "app_state \<Rightarrow> task list" where
  "effect_token s = (if truthy (token s) then [Spawn_fetchUserProfile] else [])"

definition effect_view :: "app_state \<Rightarrow> task list" where
  "effect_view s =
     (if currentView s = ''products'' \<and> truthy (token s) then [Spawn_fetchProducts] else []) @
     (if currentView s = ''orders'' \<and> truthy (token s) then [Spawn_fetchOrders] else [])"

definition effects_after :: "app_state \<Rightarrow> app_state \<Rightarrow> task list" where
  "effects_after prev s =
     (if token s = token prev then [] else effect_token s) @
     (if currentView s = currentView prev \<and> token s = token prev then [] else effect_view s)"

text \<open>
  Start-up: the state is initialised from \<^verbatim>\<open>localStorage\<close>, and the first hook calls
  \<^verbatim>\<open>fetchUserProfile\<close> when a token is held (the second has nothing to do in the \<^verbatim>\<open>login\<close>
  view).
\<close>

definition startup :: "env \<Rightarrow> (string \<rightharpoonup> string) \<Rightarrow> app_state" where
  "startup e store =
     (let s = initial_state store in if truthy (token s) then fetchUserProfile e s else s)"

section \<open>Product form and product handlers\<close>

record form_data =
  f_name :: field
  f_price :: field
  f_description :: field
  f_quantity :: field
  f_category :: field
  f_images :: "upload list"

text \<open>
  The initial \<^verbatim>\<open>formData\<close> of \<^verbatim>\<open>ProductForm\<close>: \<^verbatim>\<open>product?.name || ''\<close> and so on, so a
  price or quantity of zero shows as the empty string, and no image is selected.
\<close>

definition ProductForm_formData :: "product option \<Rightarrow> form_data" where
  "ProductForm_formData product =
     (case product of
        None \<Rightarrow>
          \<lparr>f_name = Str '''', f_price = Str '''', f_description = Str '''',
           f_quantity = Str '''', f_category = Str '''', f_images = []\<rparr>
      | Some p \<Rightarrow>
          \<lparr>f_name = Str (p_name p),
           f_price = (if p_price p = ''0'' then Str '''' else Num (p_price p)),
           f_description = Str (p_description p),
           f_quantity = (if p_quantity p = ''0'' then Str '''' else Num (p_quantity p)),
           f_category = Str (p_category p),
           f_images = []\<rparr>)"

text \<open>
  The \<^verbatim>\<open>FormData\<close> built from the form, key by key in the order of the object: every
  selected file is appended on its own under \<^verbatim>\<open>images\<close>, every other key once, as the
  string \<^verbatim>\<open>append\<close> makes of its value.
\<close>

definition build_form :: "form_data \<Rightarrow> (string \<times> form_entry) list" where
  "build_form formData =
     [(''name'', Value (field_text (f_name formData))),
      (''price'', Value (field_text (f_price formData))),
      (''description'', Value (field_text (f_description formData))),
      (''quantity'', Value (field_text (f_quantity formData))),
      (''category'', Value (field_text (f_category formData)))] @
     map (\<lambda>upload. (''images'', FileEntry upload)) (f_images formData)"

text \<open>
  The path and the options of the submit. Their template literals are taken at values
  that have a string form: the product id is a string (or \<^verbatim>\<open>undefined\<close>, \<^verbatim>\<open>null\<close>), the
  token as in \<open>request_headers\<close>.
\<close>

definition handleProductSubmit_url :: "bool \<Rightarrow> js_value \<Rightarrow> string" where
  "handleProductSubmit_url isEdit productId =
     (if isEdit then ''/api/products/'' @ to_string productId else ''/api/products'')"

definition handleProductSubmit_options :: "js_value \<Rightarrow> form_data \<Rightarrow> bool \<Rightarrow> options" where
  "handleProductSubmit_options tok formData isEdit =
     \<lparr>opt_method = Some (if isEdit then ''PUT'' else ''POST''),
      opt_body = Some (FormData (build_form formData)),
      opt_headers =
        Some (if truthy tok then [(''Authorization'', ''Bearer '' @ to_string tok)] else [])\<rparr>"

definition handleProductSubmit ::
  "env \<Rightarrow> form_data \<Rightarrow> bool \<Rightarrow> js_value \<Rightarrow> app_state \<Rightarrow> app_state \<times> task list" where
  "handleProductSubmit e formData isEdit productId s =
     (let s1 = s\<lparr>loading := True, error := ''''\<rparr> in
      case apiCall e (token s) (handleProductSubmit_url isEdit productId)
             (handleProductSubmit_options (token s) formData isEdit) of
        Inl err \<Rightarrow> (s1\<lparr>error := message err, loading := False\<rparr>, [])
      | Inr r \<Rightarrow>
          (s1\<lparr>success := (if isEdit then ''Product updated successfully!''
                           else ''Product created successfully!''),
              currentView := ''products'',
              loading := False\<rparr>,
           [Spawn_fetchProducts]))"

definition handleDeleteProduct_options :: options where
  "handleDeleteProduct_options =
     \<lparr>opt_method = Some ''DELETE'', opt_body = None, opt_headers = None\<rparr>"

definition handleDeleteProduct :: "env \<Rightarrow> string \<Rightarrow> app_state \<Rightarrow> app_state \<times> task list" where
  "handleDeleteProduct e productId s =
     (if confirm e ''Are you sure you want to delete this product?'' then
        (case apiCall e (token s) (''/api/products/'' @ productId) handleDeleteProduct_options of
           Inl err \<Rightarrow> (s\<lparr>error := message err\<rparr>, [])
         | Inr r \<Rightarrow> (s\<lparr>success := ''Product deleted successfully!''\<rparr>, [Spawn_fetchProducts]))
      else (s, []))"

definition generateSampleOrders_options :: options where
  "generateSampleOrders_options =
     \<lparr>opt_method = Some ''POST'', opt_body = None, opt_headers = None\<rparr>"

definition generateSampleOrders :: "env \<Rightarrow> app_state \<Rightarrow> app_state \<times> task list" where
  "generateSampleOrders e s =
     (let s1 = s\<lparr>loading := True\<rparr> in
      case apiCall e (token s) ''/api/generate-sample-orders'' generateSampleOrders_options of
        Inl err \<Rightarrow> (s1\<lparr>error := message err, loading := False\<rparr>, [])
      | Inr r \<Rightarrow>
          (s1\<lparr>success := ''Sample orders generated successfully!'', loading := False\<rparr>,
           [Spawn_fetchOrders]))"

text \<open>
  The seven places where the client calls \<^verbatim>\<open>apiCall\<close>, each with the path and the options
  it passes, and the request \<^verbatim>\<open>fetch\<close> receives for it.
\<close>

datatype api_call =
    Call_fetchUserProfile
  | Call_handleAuth js_value bool
  | Call_fetchProducts
  | Call_fetchOrders
  | Call_generateSampleOrders
  | Call_handleProductSubmit form_data bool js_value
  | Call_handleDeleteProduct string

fun call_url :: "api_call \<Rightarrow> string" where
  "call_url Call_fetchUserProfile = ''/api/vendor/profile''"
| "call_url (Call_handleAuth formData isLogin) = handleAuth_endpoint isLogin"
| "call_url Call_fetchProducts = ''/api/products''"
| "call_url Call_fetchOrders = ''/api/orders''"
| "call_url Call_generateSampleOrders = ''/api/generate-sample-orders''"
| "call_url (Call_handleProductSubmit formData isEdit productId) =
     handleProductSubmit_url isEdit productId"
| "call_url (Call_handleDeleteProduct productId) = ''/api/products/'' @ productId"

fun call_options :: "env \<Rightarrow> js_value \<Rightarrow> api_call \<Rightarrow> options" where
  "call_options e tok Call_fetchUserProfile = no_options"
| "call_options e tok (Call_handleAuth formData isLogin) = handleAuth_options e formData"
| "call_options e tok Call_fetchProducts = no_options"
| "call_options e tok Call_fetchOrders = no_options"
| "call_options e tok Call_generateSampleOrders = generateSampleOrders_options"
| "call_options e tok (Call_handleProductSubmit formData isEdit productId) =
     handleProductSubmit_options tok formData isEdit"
| "call_options e tok (Call_handleDeleteProduct productId) = handleDeleteProduct_options"

definition issued_request :: "env \<Rightarrow> js_value \<Rightarrow> api_call \<Rightarrow> request" where
  "issued_request e tok c = build_request e tok (call_url c) (call_options e tok c)"

section \<open>View router\<close>

text \<open>\<^verbatim>\<open>String.prototype.split\<close> with a one-character separator, and \<^verbatim>\<open>startsWith\<close>.\<close>

fun split_on :: "char \<Rightarrow> string \<Rightarrow> string list" where
  "split_on c [] = [[]]"
| "split_on c (x # xs) =
     (if x = c then [] # split_on c xs
      else (case split_on c xs of
              [] \<Rightarrow> [[x]]
            | w # ws \<Rightarrow> (x # w) # ws))"

definition index_js :: "string list \<Rightarrow> nat \<Rightarrow> js_value" where
  "index_js xs i = (if i < length xs then JStr (xs ! i) else JUndefined)"

definition startsWith :: "string \<Rightarrow> string \<Rightarrow> bool" where
  "startsWith s p = (take (length p) s = p)"

text \<open>The \<^verbatim>\<open>onEdit\<close> handler that \<^verbatim>\<open>App\<close> gives to \<^verbatim>\<open>ProductsView\<close>.\<close>

definition onEdit :: "product \<Rightarrow> app_state \<Rightarrow> app_state" where
  "onEdit product s = s\<lparr>currentView := ''edit-product-'' @ p_id product\<rparr>"

text \<open>
  The edit branch of the render: \<^verbatim>\<open>currentView.split('-')[2]\<close> is the product id it works
  with, both for the \<^verbatim>\<open>product\<close> prop and for the submit handler.
\<close>

definition edit_productId :: "string \<Rightarrow> js_value" where
  "edit_productId view = index_js (split_on CHR ''-'' view) 2"

definition edit_product :: "app_state \<Rightarrow> product option" where
  "edit_product s = find (\<lambda>p. JStr (p_id p) = edit_productId (currentView s)) (products s)"

definition edit_onSubmit :: "env \<Rightarrow> form_data \<Rightarrow> app_state \<Rightarrow> app_state \<times> task list" where
  "edit_onSubmit e formData s =
     handleProductSubmit e formData True (edit_productId (currentView s)) s"

definition add_onSubmit :: "env \<Rightarrow> form_data \<Rightarrow> app_state \<Rightarrow> app_state \<times> task list" where
  "add_onSubmit e formData s = handleProductSubmit e formData False JNull s"

text \<open>The request that submitting the edit form sends.\<close>

definition edit_request :: "env \<Rightarrow> form_data \<Rightarrow> app_state \<Rightarrow> request" where
  "edit_request e formData s =
     issued_request e (token s)
       (Call_handleProductSubmit formData True (edit_productId (currentView s)))"

datatype view =
    Show_Dashboard "product list" "order list"
  | Show_ProductsView "product list"
  | Show_ProductForm "product option" bool
  | Show_OrdersView "order list"

datatype screen = AuthScreen | Main "view list"

definition App :: "app_state \<Rightarrow> screen" where
  "App s =
     (if \<not> truthy (token s) then AuthScreen
      else Main
        ((if currentView s = ''dashboard'' then [Show_Dashboard (products s) (orders s)] else []) @
         (if currentView s = ''products'' then [Show_ProductsView (products s)] else []) @
         (if currentView s = ''add-product'' then [Show_ProductForm None False] else []) @
         (if startsWith (currentView s) ''edit-product-''
          then [Show_ProductForm (edit_product s) True] else []) @
         (if currentView s = ''orders'' then [Show_OrdersView (orders s)] else [])))"

text \<open>
  The text React shows for a child expression: a string or a number as it is, nothing for
  \<^verbatim>\<open>null\<close>, \<^verbatim>\<open>undefined\<close> and booleans, the elements of an array one after the other; a
  plain object is not a valid child (\<open>None\<close>).
\<close>

fun child_text :: "js_value \<Rightarrow> string option" where
  "child_text (JStr s) = Some s"
| "child_text (JNum n) = Some n"
| "child_text (JArr xs) = map_option concat (those (map child_text xs))"
| "child_text (JObj kvs) = None"
| "child_text v = Some ''''"

text \<open>The greeting of \<^verbatim>\<open>Navigation\<close>: \<^verbatim>\<open>Welcome, {user?.name}\<close>.\<close>

definition welcome_text :: "js_value \<Rightarrow> string option" where
  "welcome_text u = map_option (\<lambda>t. ''Welcome, '' @ t) (child_text (optional_prop u ''name''))"

section \<open>Dashboard and orders\<close>



text \<open>
  A JavaScript number: a finite double, given by the real number it stands for, an
  infinity or \<^verbatim>\<open>NaN\<close> (the two zeros are not told apart). The sum of two finite numbers
  is their exact sum rounded to a double by the host, which is the parameter \<open>rnd\<close>:
  under IEEE 754 it rounds to the nearest double, ties to even, and a sum beyond the
  largest double becomes an infinity (\<open>round_double\<close> below is that rounding).
\<close>

datatype number = Finite real | PosInf | NegInf | NaN

fun js_add :: "(real \<Rightarrow> number) \<Rightarrow> number \<Rightarrow> number \<Rightarrow> number" where
  "js_add rnd (Finite x) (Finite y) = rnd (x + y)"
| "js_add rnd NaN b = NaN"
| "js_add rnd a NaN = NaN"
| "js_add rnd PosInf NegInf = NaN"
| "js_add rnd NegInf PosInf = NaN"
| "js_add rnd PosInf b = PosInf"
| "js_add rnd a PosInf = PosInf"
| "js_add rnd NegInf b = NegInf"
| "js_add rnd a NegInf = NegInf"

text \<open>
  \<^verbatim>\<open>order.total_price\<close> as the client holds it: the double that parsing the response made
  of the number written there.
\<close>

definition total_price :: "(real \<Rightarrow> number) \<Rightarrow> order \<Rightarrow> number" where
  "total_price rnd order = rnd (o_total_price order)"

definition totalRevenue :: "(real \<Rightarrow> number) \<Rightarrow> order list \<Rightarrow> number" where
  "totalRevenue rnd os =
     foldl (\<lambda>sum order. js_add rnd sum (total_price rnd order)) (Finite 0) os"


definition recentOrders :: "order list \<Rightarrow> order list" where
  "recentOrders os = take 5 os"

definition statuses :: "string list" where
  "statuses = [''all'', ''pending'', ''confirmed'', ''shipped'', ''delivered'', ''cancelled'']"

definition filteredOrders :: "order list \<Rightarrow> string \<Rightarrow> order list" where
  "filteredOrders os flt = (if flt = ''all'' then os else filter (\<lambda>order. o_status order = flt) os)"

text \<open>
  The page while the Orders view is shown: the state of \<^verbatim>\<open>App\<close> and the \<^verbatim>\<open>filter\<close> cell of
  \<^verbatim>\<open>OrdersView\<close>, which starts as \<^verbatim>\<open>all\<close> and which the select element sets.
\<close>

record orders_page =
  app :: app_state
  filter_sel :: string

definition open_orders :: "app_state \<Rightarrow> orders_page" where
  "open_orders s = \<lparr>app = s, filter_sel = ''all''\<rparr>"

definition setFilter :: "string \<Rightarrow> orders_page \<Rightarrow> orders_page" where
  "setFilter v pg = pg\<lparr>filter_sel := v\<rparr>"

definition shown_orders :: "orders_page \<Rightarrow> order list" where
  "shown_orders pg = filteredOrders (orders (app pg)) (filter_sel pg)"

section \<open>Identifier scopes\<close>

text \<open>
  The names each function of the file binds: the module (its imports and top-level
  declarations), \<^verbatim>\<open>App\<close> (state cells and handlers), and the props and locals of
  \<^verbatim>\<open>Navigation\<close> and \<^verbatim>\<open>ProductsView\<close>. An identifier is looked up along the chain of
  enclosing scopes, innermost first; one that no scope binds raises a \<open>ReferenceError\<close>
  (the browser's global object has no property of these names).
\<close>

definition module_scope :: "string list" where
  "module_scope =
     [''React'', ''useState'', ''useEffect'', ''API_BASE_URL'', ''App'', ''AuthScreen'',
      ''Navigation'', ''Dashboard'', ''ProductsView'', ''ProductForm'', ''OrdersView'']"

definition App_scope :: "string list" where
  "App_scope =
     [''currentView'', ''setCurrentView'', ''user'', ''setUser'', ''token'', ''setToken'',
      ''products'', ''setProducts'', ''orders'', ''setOrders'', ''loading'', ''setLoading'',
      ''error'', ''setError'', ''success'', ''setSuccess'', ''apiCall'', ''fetchUserProfile'',
      ''handleAuth'', ''handleLogout'', ''fetchProducts'', ''fetchOrders'',
      ''generateSampleOrders'', ''handleProductSubmit'', ''handleDeleteProduct'']"

definition Navigation_scope :: "string list" where
  "Navigation_scope =
     [''user'', ''currentView'', ''setCurrentView'', ''onLogout'', ''isMobileMenuOpen'',
      ''setIsMobileMenuOpen'', ''navItems'']"

definition ProductsView_scope :: "string list" where
  "ProductsView_scope = [''products'', ''onDelete'', ''onEdit'']"

definition bound_in :: "string list list \<Rightarrow> string \<Rightarrow> bool" where
  "bound_in chain x = (x \<in> set (concat chain))"

text \<open>
  A click handler of the form \<^verbatim>\<open>() => setCurrentView(v)\<close>, evaluated in a scope chain.
\<close>

definition click_setCurrentView ::
  "string list list \<Rightarrow> string \<Rightarrow> app_state \<Rightarrow> js_error + app_state" where
  "click_setCurrentView chain v s =
     (if bound_in chain ''setCurrentView'' then Inr (s\<lparr>currentView := v\<rparr>)
      else Inl (ReferenceError ''setCurrentView is not defined''))"

definition Navigation_onClick :: "string \<Rightarrow> app_state \<Rightarrow> js_error + app_state" where
  "Navigation_onClick item_id s =
     click_setCurrentView [[''item''], Navigation_scope, module_scope] item_id s"

definition ProductsView_addProduct_onClick :: "app_state \<Rightarrow> js_error + app_state" where
  "ProductsView_addProduct_onClick s =
     click_setCurrentView [[], ProductsView_scope, module_scope] ''add-product'' s"

section \<open>Example hosts and data\<close>

text \<open>A backend that answers every request with the response \<open>r\<close>, and one out of reach.\<close>

definition server :: "response \<Rightarrow> env" where
  "server r =
     \<lparr>REACT_APP_BACKEND_URL = None, fetch = (\<lambda>req. Inr r),
      JSON_stringify = (\<lambda>v. ''{}''), confirm = (\<lambda>question. True)\<rparr>"

definition offline :: env where
  "offline =
     \<lparr>REACT_APP_BACKEND_URL = None, fetch = (\<lambda>req. Inl (TypeError ''Failed to fetch'')),
      JSON_stringify = (\<lambda>v. ''{}''), confirm = (\<lambda>question. True)\<rparr>"

definition sample_order :: "string \<Rightarrow> string \<Rightarrow> real \<Rightarrow> order" where
  "sample_order i st amount =
     \<lparr>o_id = i, o_product_name = ''Lamp'', o_product_image = '''',
      o_customer_name = ''Ada'', o_customer_email = ''ada@example.com'', o_quantity = 1,
      o_total_price = amount, o_status = st, o_created_at = ''2025-01-01T00:00:00''\<rparr>"

text \<open>
  The rounding of IEEE 754 double precision: to the nearest multiple of the unit in the
  last place of 53 binary digits (exponents below \<open>-1022\<close> share the unit of the
  subnormal numbers), ties to the even multiple, and to an infinity when the result
  reaches \<open>2 ^ 1024\<close>. \<open>binary_exponent x\<close> is the exponent of the power of two at or
  below a positive \<open>x\<close>, read off the length in bits of its integer part (of the
  integer part of \<open>1 / x\<close> below 1).
\<close>

definition round_half_even :: "real \<Rightarrow> int" where
  "round_half_even r =
     (let f = \<lfloor>r\<rfloor> in
      if r - of_int f < 1 / 2 then f
      else if 1 / 2 < r - of_int f then f + 1
      else if even f then f else f + 1)"

definition pow2 :: "int \<Rightarrow> real" where
  "pow2 e = (if 0 \<le> e then 2 ^ nat e else 1 / 2 ^ nat (- e))"

definition binary_exponent :: "real \<Rightarrow> int" where
  "binary_exponent x =
     (if 1 \<le> x then bitlen \<lfloor>x\<rfloor> - 1
      else
        let k = bitlen \<lfloor>1 / x\<rfloor> - 1
        in if 1 / x = 2 ^ nat k then - k else - k - 1)"

definition round_double :: "real \<Rightarrow> number" where
  "round_double x =
     (if x = 0 then Finite 0
      else
        let e = max (binary_exponent \<bar>x\<bar>) (- 1022);
            ulp = pow2 (e - 52);
            y = of_int (round_half_even (x / ulp)) * ulp
        in if 2 ^ 1024 \<le> \<bar>y\<bar> then (if 0 < x then PosInf else NegInf) else Finite y)"

definition sample_product :: "string \<Rightarrow> product" where
  "sample_product i =
     \<lparr>p_id = i, p_name = ''Lamp'', p_description = ''A desk lamp'', p_price = ''12.5'',
      p_quantity = ''3'', p_category = ''Home & Garden'', p_images = []\<rparr>"

text \<open>Responses with a parsed body and with a body that is not JSON, and a filled form.\<close>

definition reply :: "nat \<Rightarrow> js_value \<Rightarrow> response" where
  "reply code data = \<lparr>status = code, json = Inr data\<rparr>"

definition not_json :: "nat \<Rightarrow> string \<Rightarrow> response" where
  "not_json code msg = \<lparr>status = code, json = Inl (SyntaxError msg)\<rparr>"

definition sample_form :: form_data where
  "sample_form =
     \<lparr>f_name = Str ''Lamp'', f_price = Str ''12.5'', f_description = Str ''A desk lamp'',
      f_quantity = Str ''3'', f_category = Str ''Other'', f_images = [''lamp.png'']\<rparr>"

section \<open>Properties of the API client wrapper\<close>

lemma assign_lookup: "map_of (assign k v kvs) k' = (if k' = k then Some v else map_of kvs k')"
  by (induction kvs) auto

lemma spread_lookup:
  "map_of (spread obj src) k =
     (case map_of (rev src) k of Some v \<Rightarrow> Some v | None \<Rightarrow> map_of obj k)"
  unfolding spread_def
  by (induction src arbitrary: obj) (auto simp: assign_lookup map_add_def split: option.splits)

text \<open>
  The default content type stays on every request whose caller does not name a
  \<^verbatim>\<open>Content-Type\<close> of its own.
\<close>

lemma request_headers_content_type:
  assumes "\<And>h. opt_headers opts = Some h \<Longrightarrow> ''Content-Type'' \<notin> fst ` set h"
  shows "map_of (request_headers tok opts) ''Content-Type'' = Some ''application/json''"
proof (cases "opt_headers opts")
  case None
  then show ?thesis
    by (simp add: request_headers_def spread_lookup)
next
  case (Some h)
  with assms have "map_of (rev h) ''Content-Type'' = None"
    by (simp add: map_of_eq_None_iff)
  with Some show ?thesis
    by (simp add: request_headers_def spread_lookup)
qed

text \<open>Each call goes through \<^verbatim>\<open>fetch\<close> with the request listed for its call site.\<close>

lemma apiCall_issued:
  "apiCall e tok (call_url c) (call_options e tok c) =
     (case fetch e (issued_request e tok c) of Inl err \<Rightarrow> Inl err | Inr r \<Rightarrow> read_response r)"
  by (simp add: apiCall_def issued_request_def)

lemma apiCall_rejected:
  "fetch e (build_request e tok url opts) = Inl err \<Longrightarrow> apiCall e tok url opts = Inl err"
  by (simp add: apiCall_def)

lemma apiCall_ok:
  "fetch e (build_request e tok url opts) = Inr r \<Longrightarrow> ok r \<Longrightarrow> apiCall e tok url opts = json r"
  by (simp add: apiCall_def read_response_def)

lemma apiCall_not_ok:
  "fetch e (build_request e tok url opts) = Inr r \<Longrightarrow> \<not> ok r \<Longrightarrow>
   \<exists>err. apiCall e tok url opts = Inl err"
  by (auto simp: apiCall_def read_response_def split: sum.splits)

text \<open>
  The body of a request is the body the caller gave: \<^verbatim>\<open>apiCall\<close> serializes nothing. The
  product form is sent as the \<^verbatim>\<open>FormData\<close> built from it, and the credentials of a login
  as the string the caller made with \<^verbatim>\<open>JSON.stringify\<close>.
\<close>

lemma request_body_forwarded:
  "req_body (build_request e tok url opts) = opt_body opts"
  "req_body (issued_request e tok (Call_handleProductSubmit formData isEdit productId))
     = Some (FormData (build_form formData))"
  "req_body (issued_request e tok (Call_handleAuth authData isLogin))
     = Some (Text (JSON_stringify e authData))"
  by (simp_all add: build_request_def issued_request_def handleProductSubmit_options_def
        handleAuth_options_def)

text \<open>
  C3. Every call of the client, at each of its seven call sites, goes through \<^verbatim>\<open>fetch\<close>
  with a request that has the header \<^verbatim>\<open>Authorization: Bearer <token>\<close> when a token is
  held, and no \<^verbatim>\<open>Authorization\<close> header when none is held. The token is one that has a
  string form, as every string has.
\<close>

theorem apiCall_authorization:
  assumes "convertible tok"
  shows "ToString tok = Inr (to_string tok) \<and>
    apiCall e tok (call_url c) (call_options e tok c) =
      (case fetch e (issued_request e tok c) of
         Inl err \<Rightarrow> Inl err
       | Inr r \<Rightarrow> read_response r) \<and>
    map_of (req_headers (issued_request e tok c)) ''Authorization'' =
      (if truthy tok then Some (''Bearer '' @ to_string tok) else None)"
proof -
  from assms have "ToString tok = Inr (to_string tok)"
    by (simp add: ToString_def)
  moreover have "apiCall e tok (call_url c) (call_options e tok c) =
      (case fetch e (issued_request e tok c) of
         Inl err \<Rightarrow> Inl err
       | Inr r \<Rightarrow> read_response r)"
    by (rule apiCall_issued)
  moreover have "map_of (req_headers (issued_request e tok c)) ''Authorization'' =
      (if truthy tok then Some (''Bearer '' @ to_string tok) else None)"
  proof (cases c)
    case (Call_handleProductSubmit formData isEdit productId)
    then show ?thesis
      by (simp add: issued_request_def build_request_def request_headers_def spread_lookup
            handleProductSubmit_options_def)
  next
    case (Call_handleAuth formData isLogin)
    then show ?thesis
      by (simp add: issued_request_def build_request_def request_headers_def spread_lookup
            handleAuth_options_def)
  qed (simp_all add: issued_request_def build_request_def request_headers_def spread_lookup
         no_options_def generateSampleOrders_options_def handleDeleteProduct_options_def)
  ultimately show ?thesis
    by simp
qed

theorem apiCall_authorization_witness:
  "convertible (JStr ''t1'') \<and>
   map_of (req_headers (issued_request (server (reply 200 (JArr []))) (JStr ''t1'') Call_fetchOrders))
     ''Authorization'' = Some ''Bearer t1'' \<and>
   apiCall (server (reply 200 (JArr []))) (JStr ''t1'') ''/api/orders'' no_options = Inr (JArr []) \<and>
   convertible JNull \<and>
   map_of
     (req_headers
        (issued_request (server (reply 200 (JObj [])))  JNull
           (Call_handleAuth (JObj [(''email'', JStr ''a@b.com''), (''password'', JStr ''x'')]) True)))
     ''Authorization'' = None"
  using
    apiCall_authorization [of "JStr ''t1''" "server (reply 200 (JArr []))" Call_fetchOrders]
    apiCall_authorization [of JNull "server (reply 200 (JObj []))"
      "Call_handleAuth (JObj [(''email'', JStr ''a@b.com''), (''password'', JStr ''x'')]) True"]
  by (simp add: issued_request_def server_def reply_def read_response_def ok_def)

text \<open>
  C4, as the claim states it, fails: a response with a non-success status whose body is
  not JSON (the error page of a gateway) makes \<^verbatim>\<open>response.json()\<close> reject, and the client
  fails with that parse error, which is neither a field of the body nor the generic
  message; and a success response with no JSON body (status 204) raises the same kind
  of error.
\<close>

theorem apiCall_error_message_counterexample:
  "apiCall
     (server \<lparr>status = 502, json = Inl (SyntaxError ''Unexpected token < in JSON at position 0'')\<rparr>)
     (JStr ''t1'') ''/api/orders'' no_options
     = Inl (SyntaxError ''Unexpected token < in JSON at position 0'') \<and>
   apiCall
     (server \<lparr>status = 204, json = Inl (SyntaxError ''Unexpected end of JSON input'')\<rparr>)
     (JStr ''t1'') ''/api/products/p1'' handleDeleteProduct_options
     = Inl (SyntaxError ''Unexpected end of JSON input'')"
  by (simp add: apiCall_def server_def read_response_def ok_def)

text \<open>
  C4, amended. For every response the client receives:
  \<^item> when its body is not JSON, the rejection of \<^verbatim>\<open>response.json()\<close> is the error of the
    call, for a success and a non-success status alike;
  \<^item> when its body parses and its status is a success, no error is raised and the parsed
    body is returned;
  \<^item> when its body parses to a value other than \<^verbatim>\<open>null\<close> and its status is not a success,
    the call fails with an \<open>Error\<close> whose message is the \<^verbatim>\<open>detail\<close> field of the body,
    converted to a string, when that field is truthy and has a string form, and the
    generic \<^verbatim>\<open>An error occurred\<close> when the field is absent or falsy;
  \<^item> in what is left (a non-success status with the body \<^verbatim>\<open>null\<close>, or with a \<^verbatim>\<open>detail\<close> that
    has no string form) the call fails with a \<open>TypeError\<close>.
\<close>

theorem apiCall_error_message:
  assumes sent: "fetch e (build_request e tok url opts) = Inr r"
  shows "(\<forall>err. json r = Inl err \<longrightarrow> apiCall e tok url opts = Inl err) \<and>
    (\<forall>data. json r = Inr data \<and> ok r \<longrightarrow> apiCall e tok url opts = Inr data) \<and>
    (\<forall>data. json r = Inr data \<and> \<not> ok r \<and> \<not> nullish data \<and>
        truthy (own_prop data ''detail'') \<and> convertible (own_prop data ''detail'') \<longrightarrow>
        apiCall e tok url opts = Inl (Error (to_string (own_prop data ''detail'')))) \<and>
    (\<forall>data. json r = Inr data \<and> \<not> ok r \<and> \<not> nullish data \<and>
        \<not> truthy (own_prop data ''detail'') \<longrightarrow>
        apiCall e tok url opts = Inl (Error ''An error occurred'')) \<and>
    (\<forall>data. json r = Inr data \<and> \<not> ok r \<and>
        (nullish data \<or>
         truthy (own_prop data ''detail'') \<and> \<not> convertible (own_prop data ''detail'')) \<longrightarrow>
        (\<exists>m. apiCall e tok url opts = Inl (TypeError m)))"
proof -
  from sent have call: "apiCall e tok url opts = read_response r"
    by (simp add: apiCall_def)
  have not_json: "apiCall e tok url opts = Inl err" if "json r = Inl err" for err
    using that unfolding call by (simp add: read_response_def)
  have success: "apiCall e tok url opts = Inr data" if "json r = Inr data" "ok r" for data
    using that unfolding call by (simp add: read_response_def)
  have failure: "apiCall e tok url opts =
      (case ToString (js_or (own_prop data ''detail'') (JStr ''An error occurred'')) of
         Inl err \<Rightarrow> Inl err
       | Inr msg \<Rightarrow> Inl (Error msg))"
    if "json r = Inr data" "\<not> ok r" "\<not> nullish data" for data
    using that unfolding call by (simp add: read_response_def get_prop_def)
  have with_detail: "apiCall e tok url opts = Inl (Error (to_string (own_prop data ''detail'')))"
    if "json r = Inr data" "\<not> ok r" "\<not> nullish data"
      "truthy (own_prop data ''detail'')" "convertible (own_prop data ''detail'')" for data
    using that failure [of data] by (simp add: js_or_def ToString_def)
  have generic: "apiCall e tok url opts = Inl (Error ''An error occurred'')"
    if "json r = Inr data" "\<not> ok r" "\<not> nullish data"
      "\<not> truthy (own_prop data ''detail'')" for data
    using that failure [of data] by (simp add: js_or_def ToString_def)
  have null_body: "\<exists>m. apiCall e tok url opts = Inl (TypeError m)"
    if "json r = Inr data" "\<not> ok r" "nullish data" for data
    using that unfolding call by (simp add: read_response_def get_prop_def)
  have no_string_form: "\<exists>m. apiCall e tok url opts = Inl (TypeError m)"
    if "json r = Inr data" "\<not> ok r" "\<not> nullish data"
      "truthy (own_prop data ''detail'')" "\<not> convertible (own_prop data ''detail'')" for data
    using that failure [of data] by (simp add: js_or_def ToString_def)
  from null_body no_string_form
  have type_error: "\<exists>m. apiCall e tok url opts = Inl (TypeError m)"
    if "json r = Inr data" "\<not> ok r"
      "nullish data \<or>
       truthy (own_prop data ''detail'') \<and> \<not> convertible (own_prop data ''detail'')" for data
    using that by blast
  from not_json success with_detail generic type_error show ?thesis
    by blast
qed

theorem apiCall_error_message_witness:
  "apiCall (server (not_json 502 ''Unexpected token < in JSON at position 0''))
     (JStr ''t1'') ''/api/orders'' no_options
     = Inl (SyntaxError ''Unexpected token < in JSON at position 0'') \<and>
   ok (reply 200 (JArr [])) \<and>
   apiCall (server (reply 200 (JArr []))) (JStr ''t1'') ''/api/orders'' no_options = Inr (JArr []) \<and>
   \<not> ok (reply 404 (JObj [(''detail'', JStr ''Product not found'')])) \<and>
   \<not> nullish (JObj [(''detail'', JStr ''Product not found'')]) \<and>
   truthy (own_prop (JObj [(''detail'', JStr ''Product not found'')]) ''detail'') \<and>
   convertible (own_prop (JObj [(''detail'', JStr ''Product not found'')]) ''detail'') \<and>
   apiCall (server (reply 404 (JObj [(''detail'', JStr ''Product not found'')])))
     (JStr ''t1'') ''/api/products/p1'' handleDeleteProduct_options
     = Inl (Error ''Product not found'') \<and>
   \<not> ok (reply 500 (JObj [])) \<and>
   \<not> truthy (own_prop (JObj []) ''detail'') \<and>
   apiCall (server (reply 500 (JObj []))) (JStr ''t1'') ''/api/orders'' no_options
     = Inl (Error ''An error occurred'') \<and>
   nullish JNull \<and>
   (\<exists>m. apiCall (server (reply 500 JNull)) (JStr ''t1'') ''/api/orders'' no_options
     = Inl (TypeError m)) \<and>
   \<not> convertible (own_prop (JObj [(''detail'', JObj [(''toString'', JNum ''1'')])]) ''detail'') \<and>
   apiCall (server (reply 422 (JObj [(''detail'', JObj [(''toString'', JNum ''1'')])])))
     (JStr ''t1'') ''/api/orders'' no_options
     = Inl (TypeError ''Cannot convert object to primitive value'')"
proof -
  have sent: "fetch (server r) (build_request (server r) tok url opts) = Inr r" for r tok url opts
    by (simp add: server_def)
  note facts =
    apiCall_error_message [OF sent, of "not_json 502 ''Unexpected token < in JSON at position 0''"
      "JStr ''t1''" "''/api/orders''" no_options]
    apiCall_error_message [OF sent, of "reply 200 (JArr [])"
      "JStr ''t1''" "''/api/orders''" no_options]
    apiCall_error_message [OF sent, of "reply 404 (JObj [(''detail'', JStr ''Product not found'')])"
      "JStr ''t1''" "''/api/products/p1''" handleDeleteProduct_options]
    apiCall_error_message [OF sent, of "reply 500 (JObj [])"
      "JStr ''t1''" "''/api/orders''" no_options]
  have null_body: "\<exists>m. apiCall (server (reply 500 JNull)) (JStr ''t1'') ''/api/orders'' no_options
      = Inl (TypeError m)"
    by (simp add: apiCall_def server_def reply_def read_response_def ok_def get_prop_def
          nullish_def)
  have no_string_form:
    "apiCall (server (reply 422 (JObj [(''detail'', JObj [(''toString'', JNum ''1'')])])))
       (JStr ''t1'') ''/api/orders'' no_options
       = Inl (TypeError ''Cannot convert object to primitive value'')"
    by (simp add: apiCall_def server_def reply_def read_response_def ok_def get_prop_def
          nullish_def js_or_def ToString_def)
  from facts null_body no_string_form show ?thesis
    by (simp add: reply_def not_json_def ok_def nullish_def)
qed

text \<open>
  The request of a product form has the default content type whatever the form, the
  token and the product id are: the headers that \<^verbatim>\<open>handleProductSubmit\<close> passes name
  \<^verbatim>\<open>Authorization\<close> at most, so nothing takes \<^verbatim>\<open>Content-Type: application/json\<close> away.
\<close>

lemma handleProductSubmit_content_type:
  "map_of (req_headers (issued_request e tok (Call_handleProductSubmit formData isEdit productId)))
     ''Content-Type'' = Some ''application/json''"
proof -
  have "map_of (request_headers tok (handleProductSubmit_options tok formData isEdit))
      ''Content-Type'' = Some ''application/json''"
    by (rule request_headers_content_type) (auto simp: handleProductSubmit_options_def)
  then show ?thesis
    by (simp add: issued_request_def build_request_def)
qed

text \<open>
  C2 does not hold where the caller supplies a multipart body. Editing the product \<^verbatim>\<open>p1\<close>
  and submitting the form \<open>sample_form\<close> while the token \<^verbatim>\<open>t1\<close> is held goes through
  \<^verbatim>\<open>fetch\<close> with a \<^verbatim>\<open>PUT\<close> to \<^verbatim>\<open>/api/products/p1\<close> whose body is the \<^verbatim>\<open>FormData\<close> of the form,
  not serialized, and whose headers still give the content type as \<^verbatim>\<open>application/json\<close>.
\<close>

theorem edit_product_json_content_type:
  "edit_request e sample_form (onEdit (sample_product ''p1'') (s\<lparr>token := JStr ''t1''\<rparr>))
     = issued_request e (JStr ''t1'') (Call_handleProductSubmit sample_form True (JStr ''p1'')) \<and>
   apiCall e (JStr ''t1'') (call_url (Call_handleProductSubmit sample_form True (JStr ''p1'')))
     (call_options e (JStr ''t1'') (Call_handleProductSubmit sample_form True (JStr ''p1'')))
     = (case fetch e
               (issued_request e (JStr ''t1'') (Call_handleProductSubmit sample_form True (JStr ''p1''))) of
          Inl err \<Rightarrow> Inl err
        | Inr r \<Rightarrow> read_response r) \<and>
   req_url (issued_request e (JStr ''t1'') (Call_handleProductSubmit sample_form True (JStr ''p1'')))
     = API_BASE_URL e @ ''/api/products/p1'' \<and>
   req_method (issued_request e (JStr ''t1'') (Call_handleProductSubmit sample_form True (JStr ''p1'')))
     = Some ''PUT'' \<and>
   req_body (issued_request e (JStr ''t1'') (Call_handleProductSubmit sample_form True (JStr ''p1'')))
     = Some (FormData
         [(''name'', Value ''Lamp''), (''price'', Value ''12.5''),
          (''description'', Value ''A desk lamp''), (''quantity'', Value ''3''),
          (''category'', Value ''Other''), (''images'', FileEntry ''lamp.png'')]) \<and>
   req_headers (issued_request e (JStr ''t1'') (Call_handleProductSubmit sample_form True (JStr ''p1'')))
     = [(''Content-Type'', ''application/json''), (''Authorization'', ''Bearer t1'')]"
proof -
  let ?c = "Call_handleProductSubmit sample_form True (JStr ''p1'')"
  have "edit_productId (currentView (onEdit (sample_product ''p1'') (s\<lparr>token := JStr ''t1''\<rparr>)))
      = JStr ''p1''"
    by (simp add: edit_productId_def index_js_def onEdit_def sample_product_def)
  then have "edit_request e sample_form (onEdit (sample_product ''p1'') (s\<lparr>token := JStr ''t1''\<rparr>))
      = issued_request e (JStr ''t1'') ?c"
    by (simp add: edit_request_def onEdit_def)
  moreover have "apiCall e (JStr ''t1'') (call_url ?c) (call_options e (JStr ''t1'') ?c)
      = (case fetch e (issued_request e (JStr ''t1'') ?c) of
           Inl err \<Rightarrow> Inl err
         | Inr r \<Rightarrow> read_response r)"
    by (rule apiCall_issued)
  moreover have "req_headers (issued_request e (JStr ''t1'') ?c)
      = [(''Content-Type'', ''application/json''), (''Authorization'', ''Bearer t1'')]"
    by (simp add: issued_request_def build_request_def request_headers_def spread_def
          handleProductSubmit_options_def)
  moreover have "req_body (issued_request e (JStr ''t1'') ?c)
      = Some (FormData
         [(''name'', Value ''Lamp''), (''price'', Value ''12.5''),
          (''description'', Value ''A desk lamp''), (''quantity'', Value ''3''),
          (''category'', Value ''Other''), (''images'', FileEntry ''lamp.png'')])"
    by (simp add: request_body_forwarded build_form_def sample_form_def)
  moreover have "req_url (issued_request e (JStr ''t1'') ?c) = API_BASE_URL e @ ''/api/products/p1''"
    and "req_method (issued_request e (JStr ''t1'') ?c) = Some ''PUT''"
    by (simp_all add: issued_request_def build_request_def handleProductSubmit_url_def
          handleProductSubmit_options_def)
  ultimately show ?thesis
    by simp
qed

text \<open>
  The handler itself: what \<^verbatim>\<open>handleProductSubmit\<close> does is decided by the answer to that
  request.
\<close>

lemma handleProductSubmit_issues:
  "handleProductSubmit e formData isEdit productId s =
     (case (case fetch e (issued_request e (token s)
                    (Call_handleProductSubmit formData isEdit productId)) of
              Inl err \<Rightarrow> Inl err
            | Inr r \<Rightarrow> read_response r) of
        Inl err \<Rightarrow> (s\<lparr>loading := False, error := message err\<rparr>, [])
      | Inr r \<Rightarrow>
          (s\<lparr>loading := False, error := '''',
             success := (if isEdit then ''Product updated successfully!''
                         else ''Product created successfully!''),
             currentView := ''products''\<rparr>,
           [Spawn_fetchProducts]))"
  by (simp add: handleProductSubmit_def Let_def apiCall_def issued_request_def
        split: sum.splits)

section \<open>Properties of the session\<close>

text \<open>
  C7. For every login or register call whose request succeeds with a body that carries
  an access token and a vendor profile, the session becomes authenticated with that
  profile, the access token is stored in \<^verbatim>\<open>localStorage\<close> under \<^verbatim>\<open>token\<close>, and the current
  view becomes the dashboard.
\<close>

theorem handleAuth_success:
  assumes sent: "fetch e (issued_request e (token s) (Call_handleAuth formData isLogin)) = Inr r"
    and success: "ok r"
    and parsed: "json r = Inr (JObj kvs)"
    and access_token: "map_of kvs ''access_token'' = Some (JStr t)"
    and held: "t \<noteq> ''''"
    and profile: "map_of kvs ''vendor'' = Some vendor"
  shows "authenticated_as (handleAuth e formData isLogin s) vendor \<and>
    token (handleAuth e formData isLogin s) = JStr t \<and>
    localStorage (handleAuth e formData isLogin s) ''token'' = Some t \<and>
    currentView (handleAuth e formData isLogin s) = ''dashboard'' \<and>
    App (handleAuth e formData isLogin s) = Main [Show_Dashboard (products s) (orders s)]"
proof -
  from sent success parsed
  have call: "apiCall e (token s) (handleAuth_endpoint isLogin) (handleAuth_options e formData)
      = Inr (JObj kvs)"
    by (simp add: issued_request_def apiCall_ok)
  from access_token have tok: "get_prop (JObj kvs) ''access_token'' = Inr (JStr t)"
    by (simp add: get_prop_def nullish_def)
  from call tok profile have after:
    "token (handleAuth e formData isLogin s) = JStr t"
    "user (handleAuth e formData isLogin s) = vendor"
    "localStorage (handleAuth e formData isLogin s) = (localStorage s)(''token'' \<mapsto> t)"
    "currentView (handleAuth e formData isLogin s) = ''dashboard''"
    "products (handleAuth e formData isLogin s) = products s"
    "orders (handleAuth e formData isLogin s) = orders s"
    by (simp_all add: handleAuth_def Let_def ToString_def)
  from held after show ?thesis
    by (simp add: authenticated_as_def App_def startsWith_def)
qed

text \<open>
  The scenario of the specification: a login with \<^verbatim>\<open>{email: "a@b.com", password: "x"}\<close> that
  returns \<^verbatim>\<open>{access_token: "t1", vendor: {name: "A"}}\<close> leads to the dashboard, and the
  greeting shows the name \<^verbatim>\<open>A\<close>.
\<close>

theorem handleAuth_success_witness:
  "fetch
     (server \<lparr>status = 200, json = Inr (JObj [(''access_token'', JStr ''t1''),
        (''vendor'', JObj [(''name'', JStr ''A'')])])\<rparr>)
     (issued_request
        (server \<lparr>status = 200, json = Inr (JObj [(''access_token'', JStr ''t1''),
           (''vendor'', JObj [(''name'', JStr ''A'')])])\<rparr>)
        (token (initial_state Map.empty))
        (Call_handleAuth (JObj [(''email'', JStr ''a@b.com''), (''password'', JStr ''x'')]) True))
     = Inr \<lparr>status = 200, json = Inr (JObj [(''access_token'', JStr ''t1''),
         (''vendor'', JObj [(''name'', JStr ''A'')])])\<rparr> \<and>
   ok \<lparr>status = 200, json = Inr (JObj [(''access_token'', JStr ''t1''),
         (''vendor'', JObj [(''name'', JStr ''A'')])])\<rparr> \<and>
   authenticated_as
     (handleAuth
        (server \<lparr>status = 200, json = Inr (JObj [(''access_token'', JStr ''t1''),
           (''vendor'', JObj [(''name'', JStr ''A'')])])\<rparr>)
        (JObj [(''email'', JStr ''a@b.com''), (''password'', JStr ''x'')]) True
        (initial_state Map.empty))
     (JObj [(''name'', JStr ''A'')]) \<and>
   localStorage
     (handleAuth
        (server \<lparr>status = 200, json = Inr (JObj [(''access_token'', JStr ''t1''),
           (''vendor'', JObj [(''name'', JStr ''A'')])])\<rparr>)
        (JObj [(''email'', JStr ''a@b.com''), (''password'', JStr ''x'')]) True
        (initial_state Map.empty)) ''token'' = Some ''t1'' \<and>
   currentView
     (handleAuth
        (server \<lparr>status = 200, json = Inr (JObj [(''access_token'', JStr ''t1''),
           (''vendor'', JObj [(''name'', JStr ''A'')])])\<rparr>)
        (JObj [(''email'', JStr ''a@b.com''), (''password'', JStr ''x'')]) True
        (initial_state Map.empty)) = ''dashboard'' \<and>
   welcome_text
     (user
        (handleAuth
           (server \<lparr>status = 200, json = Inr (JObj [(''access_token'', JStr ''t1''),
              (''vendor'', JObj [(''name'', JStr ''A'')])])\<rparr>)
           (JObj [(''email'', JStr ''a@b.com''), (''password'', JStr ''x'')]) True
           (initial_state Map.empty))) = Some ''Welcome, A''"
proof -
  let ?r = "\<lparr>status = 200, json = Inr (JObj [(''access_token'', JStr ''t1''),
      (''vendor'', JObj [(''name'', JStr ''A'')])])\<rparr>"
  let ?form = "JObj [(''email'', JStr ''a@b.com''), (''password'', JStr ''x'')]"
  have sent: "fetch (server ?r)
      (issued_request (server ?r) (token (initial_state Map.empty)) (Call_handleAuth ?form True))
      = Inr ?r"
    by (simp add: server_def)
  have success: "ok ?r"
    by (simp add: ok_def)
  note after = handleAuth_success [OF sent success, of
      "[(''access_token'', JStr ''t1''), (''vendor'', JObj [(''name'', JStr ''A'')])]"
      "''t1''" "JObj [(''name'', JStr ''A'')]"]
  have greeting: "welcome_text (JObj [(''name'', JStr ''A'')]) = Some ''Welcome, A''"
    by (simp add: welcome_text_def optional_prop_def nullish_def)
  from after have "user (handleAuth (server ?r) ?form True (initial_state Map.empty))
      = JObj [(''name'', JStr ''A'')]"
    by (simp add: authenticated_as_def)
  with sent success after greeting show ?thesis
    by simp
qed

text \<open>
  C8. Logout clears the held token and its copy in \<^verbatim>\<open>localStorage\<close>, clears the vendor
  profile, empties the product and order lists, and returns the session to the
  anonymous state with the login view; it does so from every state.
\<close>

theorem handleLogout_clears_session:
  "token (handleLogout s) = JNull \<and>
   localStorage (handleLogout s) ''token'' = None \<and>
   user (handleLogout s) = JNull \<and>
   products (handleLogout s) = [] \<and>
   orders (handleLogout s) = [] \<and>
   currentView (handleLogout s) = ''login'' \<and>
   anonymous (handleLogout s) \<and>
   App (handleLogout s) = AuthScreen"
  by (simp add: handleLogout_def anonymous_def App_def)

text \<open>
  C9. At start-up with a persisted token, if the profile fetch fails the session is
  anonymous and the persisted token is removed; if it succeeds the session is
  authenticated with the fetched profile and shows the dashboard. The fetch goes to
  \<^verbatim>\<open>/api/vendor/profile\<close> with the default method.
\<close>

theorem startup_profile_fetch:
  assumes persisted: "store ''token'' = Some t"
    and held: "t \<noteq> ''''"
  shows "(case apiCall e (JStr t) (call_url Call_fetchUserProfile)
               (call_options e (JStr t) Call_fetchUserProfile) of
      Inl err \<Rightarrow>
        anonymous (startup e store) \<and>
        token (startup e store) = JNull \<and>
        localStorage (startup e store) ''token'' = None \<and>
        currentView (startup e store) = ''login''
    | Inr profile \<Rightarrow>
        authenticated_as (startup e store) profile \<and>
        currentView (startup e store) = ''dashboard'' \<and>
        localStorage (startup e store) ''token'' = Some t) \<and>
    req_url (issued_request e (JStr t) Call_fetchUserProfile)
      = API_BASE_URL e @ ''/api/vendor/profile'' \<and>
    req_method (issued_request e (JStr t) Call_fetchUserProfile) = None"
proof -
  from persisted have tok: "token (initial_state store) = JStr t"
    by (simp add: initial_state_def getItem_def)
  with held have run: "startup e store = fetchUserProfile e (initial_state store)"
    by (simp add: startup_def Let_def)
  show ?thesis
  proof (cases "apiCall e (JStr t) ''/api/vendor/profile'' no_options")
    case (Inl err)
    with tok show ?thesis
      unfolding run
      by (simp add: fetchUserProfile_def anonymous_def initial_state_def issued_request_def
            build_request_def no_options_def)
  next
    case (Inr profile)
    with tok held persisted show ?thesis
      unfolding run
      by (simp add: fetchUserProfile_def authenticated_as_def initial_state_def
            issued_request_def build_request_def no_options_def)
  qed
qed

theorem startup_profile_fetch_witness:
  "[''token'' \<mapsto> ''t1''] ''token'' = Some ''t1'' \<and> ''t1'' \<noteq> '''' \<and>
   anonymous
     (startup
        (server \<lparr>status = 401, json = Inr (JObj [(''detail'', JStr ''Could not validate credentials'')])\<rparr>)
        [''token'' \<mapsto> ''t1'']) \<and>
   localStorage
     (startup
        (server \<lparr>status = 401, json = Inr (JObj [(''detail'', JStr ''Could not validate credentials'')])\<rparr>)
        [''token'' \<mapsto> ''t1'']) ''token'' = None \<and>
   anonymous (startup offline [''token'' \<mapsto> ''t1'']) \<and>
   localStorage (startup offline [''token'' \<mapsto> ''t1'']) ''token'' = None \<and>
   authenticated_as
     (startup (server \<lparr>status = 200, json = Inr (JObj [(''name'', JStr ''A'')])\<rparr>)
        [''token'' \<mapsto> ''t1''])
     (JObj [(''name'', JStr ''A'')]) \<and>
   currentView
     (startup (server \<lparr>status = 200, json = Inr (JObj [(''name'', JStr ''A'')])\<rparr>)
        [''token'' \<mapsto> ''t1'']) = ''dashboard''"
proof -
  have persisted: "[''token'' \<mapsto> ''t1''] ''token'' = Some ''t1''"
    by simp
  have held: "''t1'' \<noteq> ''''"
    by simp
  have expired: "apiCall
      (server \<lparr>status = 401, json = Inr (JObj [(''detail'', JStr ''Could not validate credentials'')])\<rparr>)
      (JStr ''t1'') ''/api/vendor/profile'' no_options
      = Inl (Error ''Could not validate credentials'')"
    by (simp add: apiCall_def server_def read_response_def ok_def get_prop_def nullish_def
          js_or_def ToString_def)
  have unreachable: "apiCall offline (JStr ''t1'') ''/api/vendor/profile'' no_options
      = Inl (TypeError ''Failed to fetch'')"
    by (simp add: apiCall_def offline_def)
  have valid: "apiCall (server \<lparr>status = 200, json = Inr (JObj [(''name'', JStr ''A'')])\<rparr>)
      (JStr ''t1'') ''/api/vendor/profile'' no_options = Inr (JObj [(''name'', JStr ''A'')])"
    by (simp add: apiCall_def server_def read_response_def ok_def)
  from
    startup_profile_fetch [of "[''token'' \<mapsto> ''t1'']" "''t1''"
      "server \<lparr>status = 401, json = Inr (JObj [(''detail'', JStr ''Could not validate credentials'')])\<rparr>",
      OF persisted held]
    startup_profile_fetch [of "[''token'' \<mapsto> ''t1'']" "''t1''" offline, OF persisted held]
    startup_profile_fetch [of "[''token'' \<mapsto> ''t1'']" "''t1''"
      "server \<lparr>status = 200, json = Inr (JObj [(''name'', JStr ''A'')])\<rparr>",
      OF persisted held]
  show ?thesis
    by (simp add: expired unreachable valid)
qed

section \<open>Properties of the product edit form\<close>

lemma split_on_no_separator: "c \<notin> set s \<Longrightarrow> split_on c s = [s]"
  by (induction s) auto

text \<open>
  For a product id without a hyphen the id read back from the view string is the id the
  view string was built from: the form is filled from the first product of the list
  with that id, and the update goes with \<^verbatim>\<open>PUT\<close> to the path of that id.
\<close>

lemma edit_productId_hyphen_free:
  assumes "CHR ''-'' \<notin> set (p_id p)"
  shows "edit_productId (currentView (onEdit p s)) = JStr (p_id p)"
  using assms by (simp add: edit_productId_def index_js_def onEdit_def split_on_no_separator)

lemma edit_product_hyphen_free:
  assumes "CHR ''-'' \<notin> set (p_id p)"
  shows "edit_product (onEdit p s) = find (\<lambda>q. p_id q = p_id p) (products s)"
proof -
  have "edit_productId (currentView (onEdit p s)) = JStr (p_id p)"
    using assms by (rule edit_productId_hyphen_free)
  moreover have "products (onEdit p s) = products s"
    by (simp add: onEdit_def)
  ultimately show ?thesis
    by (simp add: edit_product_def)
qed

lemma edit_request_hyphen_free:
  assumes "CHR ''-'' \<notin> set (p_id p)"
  shows "req_url (edit_request e formData (onEdit p s)) = API_BASE_URL e @ ''/api/products/'' @ p_id p"
    and "req_method (edit_request e formData (onEdit p s)) = Some ''PUT''"
    and "req_method (issued_request e tok (Call_handleProductSubmit formData False JNull)) = Some ''POST''"
  using edit_productId_hyphen_free [OF assms, of s]
  by (simp_all add: edit_request_def issued_request_def build_request_def
        handleProductSubmit_url_def handleProductSubmit_options_def)

text \<open>
  C1 does not hold for every product id. The view string \<^verbatim>\<open>edit-product-<id>\<close> is split at
  every hyphen and the third piece is taken as the id, so for an id that has a hyphen
  itself, such as a UUID, the form works with the part before the id's first hyphen: no
  product of the list has that id, so the form is not filled, and the update goes with
  \<^verbatim>\<open>PUT\<close> to the path of the cut id.
\<close>

theorem edit_form_hyphenated_id:
  "currentView (onEdit (sample_product ''550e8400-e29b-41d4-a716-446655440000'') s)
     = ''edit-product-550e8400-e29b-41d4-a716-446655440000'' \<and>
   edit_productId (currentView (onEdit (sample_product ''550e8400-e29b-41d4-a716-446655440000'') s))
     = JStr ''550e8400'' \<and>
   edit_product
     (onEdit (sample_product ''550e8400-e29b-41d4-a716-446655440000'')
        (s\<lparr>products := [sample_product ''550e8400-e29b-41d4-a716-446655440000'']\<rparr>))
     = None \<and>
   req_url
     (edit_request e formData (onEdit (sample_product ''550e8400-e29b-41d4-a716-446655440000'') s))
     = API_BASE_URL e @ ''/api/products/550e8400'' \<and>
   req_method
     (edit_request e formData (onEdit (sample_product ''550e8400-e29b-41d4-a716-446655440000'') s))
     = Some ''PUT''"
proof -
  let ?p = "sample_product ''550e8400-e29b-41d4-a716-446655440000''"
  have view: "currentView (onEdit ?p s') = ''edit-product-550e8400-e29b-41d4-a716-446655440000''"
    for s'
    by (simp add: onEdit_def sample_product_def)
  have cut: "edit_productId ''edit-product-550e8400-e29b-41d4-a716-446655440000'' = JStr ''550e8400''"
    by (simp add: edit_productId_def index_js_def)
  have "edit_product (onEdit ?p (s\<lparr>products := [?p]\<rparr>)) = None"
    unfolding edit_product_def view cut
    by (simp add: onEdit_def sample_product_def)
  with view cut show ?thesis
    by (simp add: edit_request_def issued_request_def build_request_def
          handleProductSubmit_url_def handleProductSubmit_options_def)
qed

text \<open>
  Submitting the form sends the request of its call site; when the call succeeds the
  product list is fetched again and the list view is shown, and when it fails the
  message of the error is shown and the view stays.
\<close>

lemma handleProductSubmit_success:
  assumes "fetch e (issued_request e (token s) (Call_handleProductSubmit formData isEdit productId)) = Inr r"
    and "ok r" and "json r = Inr v"
  shows "snd (handleProductSubmit e formData isEdit productId s) = [Spawn_fetchProducts]"
    and "currentView (fst (handleProductSubmit e formData isEdit productId s)) = ''products''"
    and "error (fst (handleProductSubmit e formData isEdit productId s)) = ''''"
proof -
  from assms have "apiCall e (token s) (handleProductSubmit_url isEdit productId)
      (handleProductSubmit_options (token s) formData isEdit) = Inr v"
    by (simp add: issued_request_def apiCall_ok)
  then show "snd (handleProductSubmit e formData isEdit productId s) = [Spawn_fetchProducts]"
    and "currentView (fst (handleProductSubmit e formData isEdit productId s)) = ''products''"
    and "error (fst (handleProductSubmit e formData isEdit productId s)) = ''''"
    by (simp_all add: handleProductSubmit_def Let_def)
qed

lemma handleProductSubmit_failure:
  assumes "apiCall e (token s) (call_url (Call_handleProductSubmit formData isEdit productId))
      (call_options e (token s) (Call_handleProductSubmit formData isEdit productId)) = Inl err"
  shows "snd (handleProductSubmit e formData isEdit productId s) = []"
    and "currentView (fst (handleProductSubmit e formData isEdit productId s)) = currentView s"
    and "error (fst (handleProductSubmit e formData isEdit productId s)) = message err"
  using assms by (simp_all add: handleProductSubmit_def Let_def)

section \<open>Properties of the dashboard and the orders view\<close>




text \<open>
  The exponent that \<open>round_double\<close> works with is the binary exponent of the number: the
  power of two at or below it.
\<close>

lemma pow2_neg: "pow2 (- int k) = 1 / 2 ^ k"
  by (auto simp: pow2_def)

lemma floor_bitlen_bounds:
  assumes "1 \<le> (y::real)"
  shows "2 ^ nat (bitlen \<lfloor>y\<rfloor> - 1) \<le> y" and "y < 2 ^ nat (bitlen \<lfloor>y\<rfloor>)" and "1 \<le> bitlen \<lfloor>y\<rfloor>"
proof -
  from assms have "1 \<le> \<lfloor>y\<rfloor>" by (simp add: le_floor_iff)
  then have n: "0 < \<lfloor>y\<rfloor>" by simp
  from bitlen_bounds [OF n]
  have lo: "2 ^ nat (bitlen \<lfloor>y\<rfloor> - 1) \<le> \<lfloor>y\<rfloor>" and hi: "\<lfloor>y\<rfloor> < 2 ^ nat (bitlen \<lfloor>y\<rfloor>)"
    by simp_all
  from lo have "(2::real) ^ nat (bitlen \<lfloor>y\<rfloor> - 1) \<le> of_int \<lfloor>y\<rfloor>"
    by simp
  also have "\<dots> \<le> y"
    by simp
  finally show "2 ^ nat (bitlen \<lfloor>y\<rfloor> - 1) \<le> y" .
  from hi have "\<lfloor>y\<rfloor> + 1 \<le> 2 ^ nat (bitlen \<lfloor>y\<rfloor>)"
    by simp
  then have "of_int (\<lfloor>y\<rfloor> + 1) \<le> (2::real) ^ nat (bitlen \<lfloor>y\<rfloor>)"
    by (simp only: of_int_le_numeral_power_cancel_iff)
  moreover have "y < of_int (\<lfloor>y\<rfloor> + 1)"
    by simp
  ultimately show "y < 2 ^ nat (bitlen \<lfloor>y\<rfloor>)"
    by linarith
  from n show "1 \<le> bitlen \<lfloor>y\<rfloor>"
    by (simp add: bitlen_alt_def)
qed

lemma binary_exponent_bounds:
  assumes "0 < x"
  shows "pow2 (binary_exponent x) \<le> x \<and> x < pow2 (binary_exponent x + 1)"
proof (cases "1 \<le> x")
  case True
  from floor_bitlen_bounds [OF True] show ?thesis
    using True by (simp add: binary_exponent_def pow2_def)
next
  case False
  with assms have y: "1 \<le> 1 / x" by simp
  define k where "k = nat (bitlen \<lfloor>1 / x\<rfloor> - 1)"
  from floor_bitlen_bounds(3) [OF y] have kk: "bitlen \<lfloor>1 / x\<rfloor> - 1 = int k"
    by (simp add: k_def)
  then have kk': "nat (bitlen \<lfloor>1 / x\<rfloor>) = Suc k"
    by linarith
  from floor_bitlen_bounds(1,2) [OF y]
  have lo: "2 ^ k \<le> 1 / x" and hi: "1 / x < 2 ^ Suc k"
    unfolding kk' k_def by simp_all
  show ?thesis
  proof (cases "1 / x = 2 ^ k")
    case True
    with assms have "x * 2 ^ k = 1" by (simp add: field_simps)
    then have x: "x = 1 / 2 ^ k" by (simp add: field_simps)
    from False x have "k \<noteq> 0" by (cases k) simp_all
    then obtain j where j: "k = Suc j" by (cases k) auto
    have e: "binary_exponent x = - int k"
      unfolding binary_exponent_def Let_def kk using False True by simp
    have e1: "- int (Suc j) + 1 = - int j"
      by simp
    show ?thesis
      unfolding e j e1 pow2_neg using x j by (simp add: field_simps)
  next
    case ne: False
    have e: "binary_exponent x = - int (Suc k)"
      unfolding binary_exponent_def Let_def kk using False ne by simp
    have e1: "- int (Suc k) + 1 = - int k" by simp
    from lo ne have "2 ^ k < 1 / x" by simp
    with hi assms show ?thesis
      unfolding e e1 pow2_neg by (simp add: field_simps)
  qed
qed

lemma binary_exponent_power: "binary_exponent (2 ^ n) = int n"
proof -
  have "\<lfloor>(2::real) ^ n\<rfloor> = 2 ^ n"
    by (metis floor_of_int of_int_numeral of_int_power)
  moreover have "bitlen (2 ^ n) = int n + 1"
    by (simp add: bitlen_alt_def log_nat_power)
  ultimately show ?thesis
    by (simp add: binary_exponent_def)
qed



text \<open>
  Where an addition is rounded the revenue is the rounded sum: a total of \<open>2 ^ 53\<close>
  followed by 1 stays \<open>2 ^ 53\<close> (the tie goes to the even neighbour), two totals of
  \<open>2 ^ 1023\<close> add up to infinity, and 0.1 and 0.2 add up to the double above 0.3.
\<close>

lemma totalRevenue_rounded:
  "totalRevenue round_double [sample_order ''o1'' ''pending'' (2 ^ 53), sample_order ''o2'' ''pending'' 1]
     = Finite (2 ^ 53)"
proof -
  have first: "round_double (2 ^ 53) = Finite (2 ^ 53)"
    and one: "round_double 1 = Finite 1"
    and tie: "round_double (2 ^ 53 + 1) = Finite (2 ^ 53)"
    by (simp_all add: round_double_def binary_exponent_def pow2_def round_half_even_def Let_def
          bitlen_def compute_floorlog)
  then show ?thesis
    by (simp add: totalRevenue_def total_price_def sample_order_def)
qed

lemma totalRevenue_overflow:
  "totalRevenue round_double
     [sample_order ''o1'' ''pending'' (2 ^ 1023), sample_order ''o2'' ''pending'' (2 ^ 1023)]
     = PosInf"
proof -
  have "binary_exponent \<bar>2 ^ 1023\<bar> = 1023"
    using binary_exponent_power [of 1023] by simp
  then have first: "round_double (2 ^ 1023) = Finite (2 ^ 1023)"
    by (simp add: round_double_def pow2_def round_half_even_def Let_def)
  have "binary_exponent \<bar>2 ^ 1024\<bar> = 1024"
    using binary_exponent_power [of 1024] by simp
  then have "round_double (2 ^ 1024) = PosInf"
    by (simp add: round_double_def pow2_def round_half_even_def Let_def)
  then have second: "round_double (2 ^ 1023 + 2 ^ 1023) = PosInf"
    by simp
  from first second show ?thesis
    by (simp add: totalRevenue_def total_price_def sample_order_def)
qed

lemma totalRevenue_tenths:
  "totalRevenue round_double [sample_order ''o1'' ''pending'' (1 / 10), sample_order ''o2'' ''pending'' (2 / 10)]
     = Finite (5404319552844596 / 2 ^ 54)"
proof -
  have tenth: "round_double (1 / 10) = Finite (3602879701896397 / 2 ^ 55)"
    and fifth: "round_double (2 / 10) = Finite (3602879701896397 / 2 ^ 54)"
    and again: "round_double (3602879701896397 / 2 ^ 55) = Finite (3602879701896397 / 2 ^ 55)"
    and both: "round_double (3602879701896397 / 2 ^ 55 + 3602879701896397 / 2 ^ 54)
      = Finite (5404319552844596 / 2 ^ 54)"
    by (simp_all add: round_double_def binary_exponent_def pow2_def round_half_even_def Let_def
          bitlen_def compute_floorlog)
  then show ?thesis
    by (simp add: totalRevenue_def total_price_def sample_order_def)
qed

text \<open>
  C5. Choosing a status in the Orders view shows exactly the loaded orders with that
  status, in their order; choosing \<^verbatim>\<open>all\<close> shows the loaded list as it is; and a change of
  the filter leaves the state of the application as it was and runs neither effect
  hook, so nothing is fetched.
\<close>

theorem filteredOrders_by_status:
  assumes "flt \<noteq> ''all''"
  shows "shown_orders (setFilter flt pg) = filter (\<lambda>order. o_status order = flt) (orders (app pg)) \<and>
    shown_orders (setFilter ''all'' pg) = orders (app pg) \<and>
    app (setFilter v pg) = app pg \<and>
    effects_after (app pg) (app (setFilter v pg)) = []"
proof -
  have unchanged: "app (setFilter w pg) = app pg" "filter_sel (setFilter w pg) = w" for w
    by (simp_all add: setFilter_def)
  from assms show ?thesis
    by (simp add: shown_orders_def filteredOrders_def effects_after_def unchanged)
qed

theorem filteredOrders_by_status_witness:
  "''shipped'' \<noteq> ''all'' \<and>
   shown_orders
     (setFilter ''shipped''
        (open_orders
           ((initial_state Map.empty)
              \<lparr>orders := [sample_order ''o1'' ''shipped'' 10, sample_order ''o2'' ''pending'' 5,
                          sample_order ''o3'' ''shipped'' 7]\<rparr>)))
     = [sample_order ''o1'' ''shipped'' 10, sample_order ''o3'' ''shipped'' 7] \<and>
   shown_orders
     (setFilter ''all''
        (open_orders
           ((initial_state Map.empty)
              \<lparr>orders := [sample_order ''o1'' ''shipped'' 10, sample_order ''o2'' ''pending'' 5,
                          sample_order ''o3'' ''shipped'' 7]\<rparr>)))
     = [sample_order ''o1'' ''shipped'' 10, sample_order ''o2'' ''pending'' 5,
        sample_order ''o3'' ''shipped'' 7]"
  using filteredOrders_by_status
    [of "''shipped''"
      "open_orders
         ((initial_state Map.empty)
            \<lparr>orders := [sample_order ''o1'' ''shipped'' 10, sample_order ''o2'' ''pending'' 5,
                        sample_order ''o3'' ''shipped'' 7]\<rparr>)"]
  by (simp add: open_orders_def sample_order_def)

section \<open>The Add Product button\<close>

lemma Navigation_onClick_switches: "Navigation_onClick v s = Inr (s\<lparr>currentView := v\<rparr>)"
  by (simp add: Navigation_onClick_def click_setCurrentView_def bound_in_def Navigation_scope_def)

text \<open>
  C10. The click handler of the Add Product button of \<^verbatim>\<open>ProductsView\<close> names
  \<^verbatim>\<open>setCurrentView\<close>, which none of its scopes binds (it is not a prop of \<^verbatim>\<open>ProductsView\<close>,
  not a local and not a declaration of the module): every click fails with a reference
  error and the view is not switched to \<^verbatim>\<open>add-product\<close>.
\<close>

theorem addProduct_click_reference_error:
  "\<not> bound_in [[], ProductsView_scope, module_scope] ''setCurrentView'' \<and>
   ProductsView_addProduct_onClick s = Inl (ReferenceError ''setCurrentView is not defined'')"
proof -
  have "''setCurrentView'' \<notin> set ProductsView_scope"
    by (simp add: ProductsView_scope_def)
  moreover have "''setCurrentView'' \<notin> set module_scope"
    by (simp add: module_scope_def)
  ultimately have "\<not> bound_in [[], ProductsView_scope, module_scope] ''setCurrentView''"
    by (simp add: bound_in_def)
  then show ?thesis
    by (simp add: ProductsView_addProduct_onClick_def click_setCurrentView_def)
qed

end
